theory Spec2Isabelle
  imports Main
begin

unbundle bit_operations_syntax

section \<open>Python values used by \<open>reprozip/main.py\<close>\<close>

text \<open>
  Exceptions are values. Only two facts about an exception matter to \<open>main.py\<close>: whether
  its class derives from \<open>Exception\<close> (the handler in \<open>main\<close> is \<open>except Exception\<close>;
  \<open>KeyboardInterrupt\<close> and \<open>SystemExit\<close> do not derive from it), and the class name that
  \<open>type(e).__name__\<close> yields.
\<close>

datatype exn = Exception string | BaseException string

abbreviation IndexError :: exn where "IndexError \<equiv> Exception ''IndexError''"
abbreviation TypeError :: exn where "TypeError \<equiv> Exception ''TypeError''"
abbreviation OSError :: exn where "OSError \<equiv> Exception ''OSError''"
abbreviation OperationalError :: exn where "OperationalError \<equiv> Exception ''OperationalError''"
abbreviation FileNotFoundError :: exn where
  "FileNotFoundError \<equiv> Exception ''FileNotFoundError''"
abbreviation UnicodeDecodeError :: exn where
  "UnicodeDecodeError \<equiv> Exception ''UnicodeDecodeError''"

fun is_Exception :: "exn \<Rightarrow> bool" where
  "is_Exception (Exception n) = True"
| "is_Exception (BaseException n) = False"

fun type_name :: "exn \<Rightarrow> string" where
  "type_name (Exception n) = n"
| "type_name (BaseException n) = n"

subsection \<open>Strings\<close>

text \<open>The separator of the serialized argument vector, \<open>'\0'\<close>.\<close>

definition NUL :: char where
  "NUL = CHR 0x00"

text \<open>\<open>sep.join(xs)\<close>.\<close>

fun join :: "string \<Rightarrow> string list \<Rightarrow> string" where
  "join sep [] = []"
| "join sep [x] = x"
| "join sep (x # y # ys) = x @ sep @ join sep (y # ys)"

text \<open>
  \<open>s.split(c)\<close> for a separator of one character: the segments between the occurrences of
  \<open>c\<close>; the result is never empty (\<open>''.split(c) == ['']\<close>).
\<close>

fun str_split :: "char \<Rightarrow> string \<Rightarrow> string list" where
  "str_split c [] = [[]]"
| "str_split c (x # xs) =
     (if x = c then [] # str_split c xs
      else (case str_split c xs of
              [] \<Rightarrow> [[x]]
            | seg # segs \<Rightarrow> (x # seg) # segs))"

text \<open>\<open>xs[0]\<close> and \<open>xs[-1]\<close>: both raise \<open>IndexError\<close> on the empty list.\<close>

definition index0 :: "'a list \<Rightarrow> exn + 'a" where
  "index0 xs = (case xs of [] \<Rightarrow> Inl IndexError | x # _ \<Rightarrow> Inr x)"

definition index_last :: "'a list \<Rightarrow> exn + 'a" where
  "index_last xs = (if xs = [] then Inl IndexError else Inr (last xs))"

text \<open>\<open>os.path.basename\<close> (POSIX): what follows the last slash.\<close>

definition basename :: "string \<Rightarrow> string" where
  "basename p = rev (takeWhile (\<lambda>c. c \<noteq> CHR ''/'') (rev p))"

text \<open>
  \<open>str.lower\<close> on the code points below 256: the ASCII capitals and the Latin-1 capitals
  (U+00C0 to U+00DE, the multiplication sign U+00D7 apart) move up by 32.
\<close>

definition lower_char :: "char \<Rightarrow> char" where
  "lower_char c =
     (let n = of_char c :: nat in
      if (65 \<le> n \<and> n \<le> 90) \<or> (192 \<le> n \<and> n \<le> 222 \<and> n \<noteq> 215)
      then char_of (n + 32) else c)"

definition lower :: "string \<Rightarrow> string" where
  "lower s = map lower_char s"

definition endswith :: "string \<Rightarrow> string \<Rightarrow> bool" where
  "endswith s suf = (length suf \<le> length s \<and> drop (length s - length suf) s = suf)"

subsection \<open>Integers as text\<close>

definition digit_char :: "nat \<Rightarrow> char" where
  "digit_char d = char_of (48 + d)"

fun str_nat :: "nat \<Rightarrow> string" where
  "str_nat n = (if n < 10 then [digit_char n] else str_nat (n div 10) @ [digit_char (n mod 10)])"

declare str_nat.simps [simp del]

text \<open>\<open>str(i)\<close>, which is also \<open>"%d" % i\<close>.\<close>

definition str_int :: "int \<Rightarrow> string" where
  "str_int i = (if i < 0 then CHR ''-'' # str_nat (nat (- i)) else str_nat (nat i))"

definition ljust :: "nat \<Rightarrow> string \<Rightarrow> string" where
  "ljust w s = s @ replicate (w - length s) CHR '' ''"

definition rjust :: "nat \<Rightarrow> string \<Rightarrow> string" where
  "rjust w s = replicate (w - length s) CHR '' '' @ s"

text \<open>
  \<open>"{0: Wd}".format(i)\<close>: the format specification is a space (the sign option: a space
  before a number that is not negative), the width and \<open>d\<close>; numbers are right-aligned.
\<close>

definition format_sign_d :: "nat \<Rightarrow> int \<Rightarrow> string" where
  "format_sign_d w i =
     rjust w (if i < 0 then CHR ''-'' # str_nat (nat (- i)) else CHR '' '' # str_nat (nat i))"

text \<open>
  \<open>"{0: <Wd}".format(i)\<close>: a space followed by \<open><\<close> is a fill character and an
  alignment, so the number is left-aligned in \<open>W\<close> columns and carries no sign space.
\<close>

definition format_left_d :: "nat \<Rightarrow> int \<Rightarrow> string" where
  "format_left_d w i = ljust w (str_int i)"

text \<open>\<open>"{0: <Ws}".format(s)\<close>.\<close>

definition format_left_s :: "nat \<Rightarrow> string \<Rightarrow> string" where
  "format_left_s w s = ljust w s"

section \<open>The provenance store as \<open>print_db\<close> reads it\<close>

text \<open>
  One record per table, with the columns of the three \<open>SELECT\<close> statements of
  \<open>print_db\<close> in the order the loops unpack them. \<open>parent\<close> is tested against \<open>None\<close> by
  the source; \<open>exitcode\<close> is empty until the process has terminated.
\<close>

record process_row =
  p_id :: int
  p_parent :: "int option"
  p_timestamp :: int
  p_exit :: "int option"

record exec_row =
  x_id :: int
  x_name :: string
  x_timestamp :: int
  x_process :: int
  x_argv :: string

record open_row =
  o_id :: int
  o_name :: string
  o_timestamp :: int
  o_mode :: int
  o_process :: int

text \<open>
  The rows as the file holds them. A TEXT value is bytes, which the cursor decodes as
  UTF-8 when it fetches the row: \<open>Text s\<close> is a value that decodes, to \<open>s\<close>;
  \<open>Undecodable\<close> is one that does not, and fetching its row raises sqlite3's
  \<open>OperationalError\<close>. The processes table has no TEXT column.
\<close>

datatype sqltext = Text string | Undecodable

record stored_exec =
  sx_id :: int
  sx_name :: sqltext
  sx_timestamp :: int
  sx_process :: int
  sx_argv :: sqltext

record stored_open =
  so_id :: int
  so_name :: sqltext
  so_timestamp :: int
  so_mode :: int
  so_process :: int

definition fetch_text :: "sqltext \<Rightarrow> exn + string" where
  "fetch_text t = (case t of Text s \<Rightarrow> Inr s | Undecodable \<Rightarrow> Inl OperationalError)"

definition fetch_process :: "process_row \<Rightarrow> exn + process_row" where
  "fetch_process r = Inr r"

definition fetch_exec :: "stored_exec \<Rightarrow> exn + exec_row" where
  "fetch_exec r =
     (case fetch_text (sx_name r) of
        Inl e \<Rightarrow> Inl e
      | Inr n \<Rightarrow>
          (case fetch_text (sx_argv r) of
             Inl e \<Rightarrow> Inl e
           | Inr a \<Rightarrow>
               Inr \<lparr>x_id = sx_id r, x_name = n, x_timestamp = sx_timestamp r,
                    x_process = sx_process r, x_argv = a\<rparr>))"

definition fetch_open :: "stored_open \<Rightarrow> exn + open_row" where
  "fetch_open r =
     (case fetch_text (so_name r) of
        Inl e \<Rightarrow> Inl e
      | Inr n \<Rightarrow>
          Inr \<lparr>o_id = so_id r, o_name = n, o_timestamp = so_timestamp r, o_mode = so_mode r,
               o_process = so_process r\<rparr>)"

text \<open>
  A database file: the tables it declares (name and column names) and the rows of the
  three tables. A file that sqlite3 has just created declares no table.
\<close>

record database =
  db_schema :: "(string \<times> string list) list"
  processes :: "process_row list"
  executed_files :: "stored_exec list"
  opened_files :: "stored_open list"

definition empty_database :: database where
  "empty_database = \<lparr>db_schema = [], processes = [], executed_files = [], opened_files = []\<rparr>"

text \<open>
  \<open>cur.execute('SELECT cols FROM tbl')\<close>: sqlite3 raises \<open>OperationalError\<close> when the
  table or one of the columns does not exist.
\<close>

definition select_from :: "string \<times> string list \<Rightarrow> database \<Rightarrow> exn + unit" where
  "select_from q db =
     (case map_of (db_schema db) (fst q) of
        None \<Rightarrow> Inl OperationalError
      | Some cols \<Rightarrow> if list_all (\<lambda>c. c \<in> set cols) (snd q) then Inr () else Inl OperationalError)"

text \<open>The three queries of \<open>print_db\<close> (lines 44-48, 70-74 and 98-102).\<close>

definition processes_query :: "string \<times> string list" where
  "processes_query = (''processes'', [''id'', ''parent'', ''timestamp'', ''exitcode''])"

definition executed_files_query :: "string \<times> string list" where
  "executed_files_query =
     (''executed_files'', [''id'', ''name'', ''timestamp'', ''process'', ''argv''])"

definition opened_files_query :: "string \<times> string list" where
  "opened_files_query =
     (''opened_files'', [''id'', ''name'', ''timestamp'', ''mode'', ''process''])"

subsection \<open>The rows of the three listings\<close>

text \<open>
  The exit column (lines 60-63). \<open>r_exit & 0x0100\<close> raises \<open>TypeError\<close> on \<open>None\<close>; both
  branches format \<open>r_exit\<close> itself.
\<close>

definition format_exit :: "int option \<Rightarrow> exn + string" where
  "format_exit r_exit =
     (case r_exit of
        None \<Rightarrow> Inl TypeError
      | Some e \<Rightarrow>
          if e AND 0x0100 \<noteq> 0 then Inr ('' sig'' @ format_left_d 2 e @ '' '')
          else Inr (''    '' @ format_left_d 2 e @ '' ''))"

definition format_process :: "process_row \<Rightarrow> exn + string" where
  "format_process r =
     (let f_id = format_sign_d 5 (p_id r) @ '' '';
          f_parent = (case p_parent r of
                        Some p \<Rightarrow> format_sign_d 7 p @ '' ''
                      | None \<Rightarrow> ''        '')
      in case format_exit (p_exit r) of
           Inl e \<Rightarrow> Inl e
         | Inr f_exit \<Rightarrow>
             (let f_timestamp = format_sign_d 17 (p_timestamp r) @ '' ''
              in Inr (join ''|'' [[], f_id, f_parent, f_exit, f_timestamp, []])))"

text \<open>
  Lines 86-88: the stored argument vector is split on NUL and a final empty segment is
  dropped. \<open>argv[-1]\<close> is modelled with its \<open>IndexError\<close>, which \<open>split\<close> never triggers.
\<close>

definition split_argv :: "string \<Rightarrow> exn + string list" where
  "split_argv r_argv =
     (let argv = str_split NUL r_argv
      in case index_last argv of
           Inl e \<Rightarrow> Inl e
         | Inr l \<Rightarrow> Inr (if l = [] then butlast argv else argv))"

text \<open>
  Lines 83-93. \<open>repr\<close> is Python's, taken as a parameter (it differs between Python 2
  and 3, and no claim depends on what it prints).
\<close>

definition format_exec :: "(string \<Rightarrow> string) \<Rightarrow> exec_row \<Rightarrow> exn + string" where
  "format_exec repr r =
     (let f_id = format_sign_d 7 (x_id r) @ '' '';
          f_timestamp = format_sign_d 17 (x_timestamp r) @ '' '';
          f_proc = format_sign_d 8 (x_process r) @ '' ''
      in case split_argv (x_argv r) of
           Inl e \<Rightarrow> Inl e
         | Inr argv \<Rightarrow>
             (let cmdline = join '' '' (map repr argv)
              in case index0 argv of
                   Inl e \<Rightarrow> Inl e
                 | Inr a0 \<Rightarrow>
                     (let cmdline' = (if a0 \<noteq> basename (x_name r)
                                      then ''('' @ x_name r @ '') '' @ cmdline
                                      else cmdline);
                          f_cmdline = '' '' @ format_left_s 37 cmdline' @ '' ''
                      in Inr (join ''|'' [[], f_id, f_timestamp, f_proc, f_cmdline, []]))))"

definition format_open :: "open_row \<Rightarrow> exn + string" where
  "format_open r =
     (let f_id = format_sign_d 7 (o_id r) @ '' '';
          f_timestamp = format_sign_d 17 (o_timestamp r) @ '' '';
          f_proc = format_sign_d 8 (o_process r) @ '' '';
          f_mode = format_sign_d 5 (o_mode r) @ '' '';
          f_name = '' '' @ format_left_s 30 (o_name r) @ '' ''
      in Inr (join ''|'' [[], f_id, f_timestamp, f_proc, f_mode, f_name, []]))"

subsection \<open>\<open>print_db\<close>\<close>

text \<open>
  Output is the list of the strings given to \<open>print\<close>, in order, with the exception that
  ended the printing, if any. Each of the three loops fetches a row from the cursor,
  prints it and then the header line; it stops at the first row whose fetching or
  formatting raises.
\<close>

type_synonym printed = "string list \<times> exn option"

fun print_rows ::
  "('s \<Rightarrow> exn + 'r) \<Rightarrow> ('r \<Rightarrow> exn + string) \<Rightarrow> string \<Rightarrow> 's list \<Rightarrow> printed" where
  "print_rows fetch fmt header [] = ([], None)"
| "print_rows fetch fmt header (s # ss) =
     (case fetch s of
        Inl e \<Rightarrow> ([], Some e)
      | Inr r \<Rightarrow>
          (case fmt r of
             Inl e \<Rightarrow> ([], Some e)
           | Inr line \<Rightarrow>
               (case print_rows fetch fmt header ss of (ls, e) \<Rightarrow> (line # header # ls, e))))"

text \<open>Sequencing: what follows runs only when no exception is pending.\<close>

definition and_then :: "printed \<Rightarrow> printed \<Rightarrow> printed" where
  "and_then a b = (case snd a of Some e \<Rightarrow> a | None \<Rightarrow> (fst a @ fst b, snd b))"

definition query :: "string \<times> string list \<Rightarrow> database \<Rightarrow> printed" where
  "query q db = (case select_from q db of Inl e \<Rightarrow> ([], Some e) | Inr u \<Rightarrow> ([], None))"

definition processes_header :: string where
  "processes_header = ''+------+--------+-------+------------------+''"

definition executed_header :: string where
  "executed_header =
     ''+--------+------------------+---------+------------------------'' @
     ''---------------+''"

definition opened_header :: string where
  "opened_header =
     ''+--------+------------------+---------+------+-----------------'' @
     ''---------------+''"

definition print_processes :: "database \<Rightarrow> printed" where
  "print_processes db =
     and_then (query processes_query db)
       (and_then
          ([CHR 0x0A # ''Processes:'', processes_header,
            ''|  id  | parent |  exit |     timestamp    |'', processes_header], None)
          (print_rows fetch_process format_process processes_header (processes db)))"

definition print_executed :: "(string \<Rightarrow> string) \<Rightarrow> database \<Rightarrow> printed" where
  "print_executed repr db =
     and_then (query executed_files_query db)
       (and_then
          ([CHR 0x0A # ''Executed files:'', executed_header,
            ''|   id   |     timestamp    | process | name and argv              '' @
            ''           |'', executed_header], None)
          (print_rows fetch_exec (format_exec repr) executed_header (executed_files db)))"

definition print_opened :: "database \<Rightarrow> printed" where
  "print_opened db =
     and_then (query opened_files_query db)
       (and_then
          ([CHR 0x0A # ''Files:'', opened_header,
            ''|   id   |     timestamp    | process | mode | name                '' @
            ''           |'', opened_header], None)
          (print_rows fetch_open format_open opened_header (opened_files db)))"

definition print_db_output :: "(string \<Rightarrow> string) \<Rightarrow> database \<Rightarrow> printed" where
  "print_db_output repr db =
     and_then (print_processes db) (and_then (print_executed repr db) (print_opened db))"


section \<open>The subcommands\<close>

text \<open>
  The world the subcommands act on: the sqlite3 files that exist (by path, with their
  content), what has been printed, and the usage report. Logging is left out.
\<close>

record world =
  files :: "string \<rightharpoonup> database"
  stdout :: "string list"
  usage :: "(string \<times> string) list"

text \<open>
  What \<open>main.py\<close> calls and does not define. Each takes the world and returns the world
  it leaves, with its value or the exception it raised.
  \<^item> \<open>execute\<close> is \<open>_pytracer.execute(binary, argv, database, verbosity)\<close>;
  \<^item> \<open>tracer_trace\<close> is \<open>reprozip.tracer.trace.trace(binary, argv, directory, append,
    verbosity)\<close>; its value, an integer here, is not used by \<open>trace\<close>;
  \<^item> \<open>write_configuration\<close> and \<open>pack_pack\<close> are \<open>reprozip.tracer.trace.write_configuration\<close>
    and \<open>reprozip.pack.pack\<close>;
  \<^item> \<open>Path\<close> is the constructor of \<open>rpaths.Path\<close>, from the string given to the string
    it keeps as \<open>path\<close>; \<open>tempfile\<close> is the name that \<open>Path.tempfile\<close> chooses;
  \<^item> \<open>repr\<close> is Python's, on strings;
  \<^item> \<open>PY3\<close> is \<open>reprozip.utils.PY3\<close>: whether the interpreter is Python 3.
\<close>

record externals =
  execute :: "string \<Rightarrow> string list \<Rightarrow> string \<Rightarrow> nat \<Rightarrow> world \<Rightarrow> (exn + int) \<times> world"
  tracer_trace ::
    "string \<Rightarrow> string list \<Rightarrow> string \<Rightarrow> bool \<Rightarrow> nat \<Rightarrow> world \<Rightarrow> (exn + int) \<times> world"
  write_configuration :: "string \<Rightarrow> bool \<Rightarrow> bool \<Rightarrow> world \<Rightarrow> (exn + unit) \<times> world"
  pack_pack :: "string \<Rightarrow> string \<Rightarrow> bool \<Rightarrow> world \<Rightarrow> (exn + unit) \<times> world"
  Path :: "string \<Rightarrow> string"
  tempfile :: "world \<Rightarrow> string"
  repr :: "string \<Rightarrow> string"
  PY3 :: bool

text \<open>
  The namespace that argparse returns. \<open>arg0\<close>, \<open>append\<close> and \<open>cmdline\<close> are set by the
  \<open>trace\<close> and \<open>testrun\<close> subparsers, \<open>target\<close> by \<open>pack\<close>.
\<close>

datatype command = Trace | Testrun | Reset | Pack

record args =
  selected_command :: command
  verbosity :: nat
  dir :: string
  identify_packages :: bool
  arg0 :: "string option"
  append_flag :: bool
  cmdline :: "string list"
  target :: string

definition print_line :: "string \<Rightarrow> world \<Rightarrow> world" where
  "print_line s w = w\<lparr>stdout := stdout w @ [s]\<rparr>"

text \<open>
  \<open>sqlite3.connect\<close> opens the file, creating an empty database when there is none. It is
  given \<open>str(database)\<close> on Python 3 and \<open>database.path\<close> on Python 2: the same file.
\<close>

definition connect :: "string \<Rightarrow> world \<Rightarrow> database \<times> world" where
  "connect path w =
     (case files w path of
        Some db \<Rightarrow> (db, w)
      | None \<Rightarrow> (empty_database, w\<lparr>files := (files w)(path \<mapsto> empty_database)\<rparr>))"

text \<open>\<open>print_db(database)\<close>: lines 33-120.\<close>

definition print_db :: "(string \<Rightarrow> string) \<Rightarrow> string \<Rightarrow> world \<Rightarrow> (exn + unit) \<times> world" where
  "print_db repr_fn path w =
     (case connect path w of
        (db, w1) \<Rightarrow>
          (case print_db_output repr_fn db of
             (ls, e) \<Rightarrow>
               ((case e of Some x \<Rightarrow> Inl x | None \<Rightarrow> Inr ()), w1\<lparr>stdout := stdout w1 @ ls\<rparr>)))"

text \<open>
  \<open>database.remove()\<close>, which is \<open>os.remove\<close>. When the file does not exist it raises
  \<open>OSError\<close>, whose class on Python 3 is the subclass \<open>FileNotFoundError\<close>. The failures
  of \<open>os.remove\<close> on a file that exists (a directory that cannot be written) are
  outside the world modelled here.
\<close>

definition remove_file :: "bool \<Rightarrow> string \<Rightarrow> world \<Rightarrow> (exn + unit) \<times> world" where
  "remove_file py3 path w =
     (case files w path of
        None \<Rightarrow> (Inl (if py3 then FileNotFoundError else OSError), w)
      | Some db \<Rightarrow> (Inr (), w\<lparr>files := (files w)(path := None)\<rparr>))"

text \<open>
  Lines 134-137 and 160-163: \<open>[args.arg0] + args.cmdline[1:]\<close> when \<open>arg0\<close> is given,
  \<open>args.cmdline\<close> otherwise.
\<close>

definition build_argv :: "string option \<Rightarrow> string list \<Rightarrow> string list" where
  "build_argv a0 cl = (case a0 of Some a \<Rightarrow> [a] @ drop 1 cl | None \<Rightarrow> cl)"

definition separator_line :: string where
  "separator_line =
     [CHR 0x0A, CHR 0x0A] @ ''-----------------------------------------------------------'' @
     ''--------------------''"

definition warn_signal :: "int \<Rightarrow> string" where
  "warn_signal n =
     CHR 0x0A # ''Warning: program appears to have been terminated by '' @
     ''signal '' @ str_int n"

definition warn_code :: "int \<Rightarrow> string" where
  "warn_code c = CHR 0x0A # ''Warning: program exited with non-zero code '' @ str_int c"

text \<open>Lines 145-150.\<close>

definition report_exit :: "int \<Rightarrow> world \<Rightarrow> world" where
  "report_exit c w =
     (if c \<noteq> 0 then
        (if c AND 0x0100 \<noteq> 0 then print_line (warn_signal (c AND 0xFF)) w
         else print_line (warn_code c) w)
      else w)"

text \<open>The body of the \<open>try\<close> of \<open>testrun\<close>, lines 134-150.\<close>

definition testrun_body :: "externals \<Rightarrow> args \<Rightarrow> string \<Rightarrow> world \<Rightarrow> (exn + unit) \<times> world" where
  "testrun_body ext a database w =
     (let argv = build_argv (arg0 a) (cmdline a)
      in case index0 (cmdline a) of
           Inl e \<Rightarrow> (Inl e, w)
         | Inr binary \<Rightarrow>
             (case execute ext binary argv database (verbosity a) w of
                (Inl e, w1) \<Rightarrow> (Inl e, w1)
              | (Inr c, w1) \<Rightarrow>
                  (case print_db (repr ext) database (print_line separator_line w1) of
                     (Inl e, w2) \<Rightarrow> (Inl e, w2)
                   | (Inr u, w2) \<Rightarrow> (Inr (), report_exit c w2))))"

text \<open>
  \<open>testrun\<close>, lines 131-152: the temporary file is created, the body runs, and the
  \<open>finally\<close> clause removes the file whatever the body did; an exception of the removal
  replaces the body's. \<open>Path.tempfile\<close> and \<open>os.close\<close>, which precede the \<open>try\<close>, are
  taken to succeed.
\<close>

definition testrun :: "externals \<Rightarrow> args \<Rightarrow> world \<Rightarrow> (exn + unit) \<times> world" where
  "testrun ext a w =
     (let database = tempfile ext w;
          w0 = w\<lparr>files := (files w)(database \<mapsto> empty_database)\<rparr>
      in case testrun_body ext a database w0 of
           (r, w1) \<Rightarrow>
             (case remove_file (PY3 ext) database w1 of
                (Inl e, w2) \<Rightarrow> (Inl e, w2)
              | (Inr u, w2) \<Rightarrow> (r, w2)))"

text \<open>\<open>trace\<close>, lines 160-171. The value of \<open>reprozip.tracer.trace.trace\<close> is not used.\<close>

definition trace :: "externals \<Rightarrow> args \<Rightarrow> world \<Rightarrow> (exn + unit) \<times> world" where
  "trace ext a w =
     (let argv = build_argv (arg0 a) (cmdline a)
      in case index0 (cmdline a) of
           Inl e \<Rightarrow> (Inl e, w)
         | Inr binary \<Rightarrow>
             (case tracer_trace ext binary argv (Path ext (dir a)) (append_flag a) (verbosity a) w of
                (Inl e, w1) \<Rightarrow> (Inl e, w1)
              | (Inr c, w1) \<Rightarrow>
                  write_configuration ext (Path ext (dir a)) (identify_packages a) False w1))"

definition reset :: "externals \<Rightarrow> args \<Rightarrow> world \<Rightarrow> (exn + unit) \<times> world" where
  "reset ext a w = write_configuration ext (Path ext (dir a)) (identify_packages a) True w"

text \<open>
  \<open>target.path + '.rpz'\<close>, line 192. The \<open>path\<close> of a \<open>Path\<close> is a byte string (which is
  why \<open>print_db\<close> gives sqlite3 \<open>str(database)\<close> on Python 3), and \<open>'.rpz'\<close> is a unicode
  literal (\<open>unicode_literals\<close>). Python 3 refuses to add the two with \<open>TypeError\<close>; Python 2
  decodes the bytes as ASCII, which raises \<open>UnicodeDecodeError\<close> on a byte above 127.
\<close>

definition bytes_plus_unicode :: "bool \<Rightarrow> string \<Rightarrow> string \<Rightarrow> exn + string" where
  "bytes_plus_unicode py3 b u =
     (if py3 then Inl TypeError
      else if list_all (\<lambda>c. (of_char c :: nat) < 128) b then Inr (b @ u)
      else Inl UnicodeDecodeError)"

text \<open>
  Lines 190-193: the target of \<open>pack\<close>. \<open>unicodename\<close> is the name of the final component
  of the path, as unicode.
\<close>

definition unicodename :: "string \<Rightarrow> string" where
  "unicodename p = basename p"

definition pack_target :: "bool \<Rightarrow> (string \<Rightarrow> string) \<Rightarrow> string \<Rightarrow> exn + string" where
  "pack_target py3 P t =
     (let target = P t
      in if \<not> endswith (lower (unicodename target)) ''.rpz'' then
           (case bytes_plus_unicode py3 target ''.rpz'' of
              Inl e \<Rightarrow> Inl e
            | Inr s \<Rightarrow> Inr (P s))
         else Inr target)"

definition pack :: "externals \<Rightarrow> args \<Rightarrow> world \<Rightarrow> (exn + unit) \<times> world" where
  "pack ext a w =
     (case pack_target (PY3 ext) (Path ext) (target a) of
        Inl e \<Rightarrow> (Inl e, w)
      | Inr t \<Rightarrow> pack_pack ext t (Path ext (dir a)) (identify_packages a) w)"

subsection \<open>\<open>main\<close>, after the command line has been parsed\<close>

text \<open>
  Lines 287-299. \<open>parser.error\<close> leaves with status 2; \<open>sys.exit(0)\<close> is reached after the
  \<open>try\<close> statement whether the subcommand returned or raised an \<open>Exception\<close>. An exception
  outside \<open>Exception\<close> is not handled. The usage report is kept as the list of what
  \<open>record_usage_report\<close> and \<open>submit_usage_report\<close> were given; \<open>setup_logging\<close> and
  \<open>setup_usage_report\<close> have no effect on it.
\<close>

datatype outcome = SysExit int | Uncaught exn

definition has_cmdline :: "command \<Rightarrow> bool" where
  "has_cmdline c = (c = Trace \<or> c = Testrun)"

fun command_name :: "command \<Rightarrow> string" where
  "command_name Trace = ''trace''"
| "command_name Testrun = ''testrun''"
| "command_name Reset = ''reset''"
| "command_name Pack = ''pack''"

fun func :: "command \<Rightarrow> externals \<Rightarrow> args \<Rightarrow> world \<Rightarrow> (exn + unit) \<times> world" where
  "func Trace = trace"
| "func Testrun = testrun"
| "func Reset = reset"
| "func Pack = pack"

definition record_usage_report :: "string \<Rightarrow> world \<Rightarrow> world" where
  "record_usage_report c w = w\<lparr>usage := usage w @ [(''command'', c)]\<rparr>"

definition submit_usage_report :: "string \<Rightarrow> world \<Rightarrow> world" where
  "submit_usage_report r w = w\<lparr>usage := usage w @ [(''result'', r)]\<rparr>"

definition main :: "externals \<Rightarrow> args \<Rightarrow> world \<Rightarrow> outcome \<times> world" where
  "main ext a w =
     (if has_cmdline (selected_command a) \<and> cmdline a = [] then (SysExit 2, w)
      else
        (case func (selected_command a) ext a
                (record_usage_report (command_name (selected_command a)) w) of
           (Inl e, w1) \<Rightarrow>
             if is_Exception e then (SysExit 0, submit_usage_report (type_name e) w1)
             else (Uncaught e, w1)
         | (Inr u, w1) \<Rightarrow> (SysExit 0, submit_usage_report ''success'' w1)))"

section \<open>The writer's side of the store\<close>

text \<open>
  The tracer that fills the store (\<open>_pytracer\<close> and \<open>reprozip.tracer\<close>) is not part of
  \<open>main.py\<close>. What follows states its side from the specification, so that the reader
  \<open>main.py\<close> can be set against it.
\<close>

subsection \<open>Exit codes\<close>

datatype exit_status = Exited int | Signaled int

text \<open>
  Modelled from the spec: the exit-code encoding of the tracer, which is not among the
  sources. A value in 0..255 is a normal exit status; a value with bit \<open>0x0100\<close> set has
  the signal number in its low byte.
\<close>

fun encode_exit :: "exit_status \<Rightarrow> int" where
  "encode_exit (Exited s) = s"
| "encode_exit (Signaled n) = 0x0100 OR n"

text \<open>How \<open>testrun\<close> reads the code it receives (lines 146-150).\<close>

definition decode_exit :: "int \<Rightarrow> exit_status" where
  "decode_exit c = (if c AND 0x0100 \<noteq> 0 then Signaled (c AND 0xFF) else Exited c)"

subsection \<open>Argument vectors\<close>

text \<open>
  Modelled from the spec: the \<open>argv\<close> column holds the arguments joined with NUL, with
  an optional trailing separator. The tracer that writes it is not among the sources.
\<close>

definition serialize_argv :: "bool \<Rightarrow> string list \<Rightarrow> string" where
  "serialize_argv trailing xs = join [NUL] xs @ (if trailing then [NUL] else [])"

subsection \<open>Schema\<close>

text \<open>
  Modelled from the spec: the schema of the store, which the tracer creates (its code is
  not among the sources).
\<close>

definition store_schema :: "(string \<times> string list) list" where
  "store_schema =
     [(''processes'', [''id'', ''parent'', ''timestamp'', ''exitcode'']),
      (''executed_files'', [''id'', ''name'', ''timestamp'', ''process'', ''argv'']),
      (''opened_files'', [''id'', ''name'', ''timestamp'', ''mode'', ''process''])]"

subsection \<open>The processes table under the supervisor\<close>

text \<open>
  Modelled from the spec: \<open>ProvenanceStore.open\<close>, \<open>record_process\<close> and \<open>update_exit\<close>,
  and the part of the \<open>ProcessSupervisor\<close> that writes the processes table. None of it is
  among the sources.
  \<^item> \<open>open\<close>: fresh creates empty tables; append continues the id sequence from its prior
    maximum.
  \<^item> \<open>record_process\<close>: an append-only insert; the store assigns the ids in strictly
    increasing order.
  \<^item> \<open>update_exit\<close>: the only mutation of an existing row.
  \<^item> \<open>start\<close> creates the root record, with a null parent. A new child gets a record
    whose parent is the reporting process; an exit records the exit code and marks the
    process terminated. An event of a process that is not a live tracee changes nothing.
\<close>

datatype open_mode = Fresh | Append

definition store_open :: "open_mode \<Rightarrow> process_row list \<Rightarrow> process_row list" where
  "store_open m existing = (case m of Fresh \<Rightarrow> [] | Append \<Rightarrow> existing)"

definition next_id :: "process_row list \<Rightarrow> int" where
  "next_id tbl = fold (\<lambda>r m. max m (p_id r + 1)) tbl 0"

definition record_process :: "int option \<Rightarrow> int \<Rightarrow> process_row list \<Rightarrow> int \<times> process_row list" where
  "record_process parent ts tbl =
     (let i = next_id tbl
      in (i, tbl @ [\<lparr>p_id = i, p_parent = parent, p_timestamp = ts, p_exit = None\<rparr>]))"

definition update_exit :: "int \<Rightarrow> int \<Rightarrow> process_row list \<Rightarrow> process_row list" where
  "update_exit pid code tbl = map (\<lambda>r. if p_id r = pid then r\<lparr>p_exit := Some code\<rparr> else r) tbl"

text \<open>The supervisor's state: the table and the ids of the live tracees.\<close>

record session =
  proc_table :: "process_row list"
  live :: "int list"

text \<open>
  The events that concern the table, each with the reporting process and its tick.
  Syscall stops and exec notifications leave the processes table alone.
\<close>

datatype event = Forked int int | Terminated int int exit_status | Other int int

definition start :: "open_mode \<Rightarrow> process_row list \<Rightarrow> int \<Rightarrow> session" where
  "start m existing ts =
     (case record_process None ts (store_open m existing) of
        (i, tbl) \<Rightarrow> \<lparr>proc_table = tbl, live = [i]\<rparr>)"

fun on_event :: "session \<Rightarrow> event \<Rightarrow> session" where
  "on_event s (Forked p ts) =
     (if p \<in> set (live s) then
        (case record_process (Some p) ts (proc_table s) of
           (i, tbl) \<Rightarrow> \<lparr>proc_table = tbl, live = live s @ [i]\<rparr>)
      else s)"
| "on_event s (Terminated p ts st) =
     (if p \<in> set (live s) then
        \<lparr>proc_table = update_exit p (encode_exit st) (proc_table s), live = removeAll p (live s)\<rparr>
      else s)"
| "on_event s (Other p ts) = s"

definition run_to_completion :: "session \<Rightarrow> event list \<Rightarrow> session" where
  "run_to_completion s evs = foldl on_event s evs"

text \<open>One traced run: the table it leaves, from the table it found at the location.\<close>

definition traced_run :: "open_mode \<Rightarrow> int \<Rightarrow> event list \<Rightarrow> process_row list \<Rightarrow> process_row list" where
  "traced_run m ts evs existing = proc_table (run_to_completion (start m existing ts) evs)"

text \<open>The table at one location after a sequence of runs, the first one finding nothing.\<close>

definition store_after :: "(open_mode \<times> int \<times> event list) list \<Rightarrow> process_row list" where
  "store_after runs = foldl (\<lambda>tbl (m, ts, evs). traced_run m ts evs tbl) [] runs"

text \<open>The properties of the parent graph.\<close>

definition roots :: "process_row list \<Rightarrow> process_row list" where
  "roots tbl = filter (\<lambda>r. p_parent r = None) tbl"

definition parent_earlier :: "process_row list \<Rightarrow> process_row \<Rightarrow> bool" where
  "parent_earlier tbl r =
     (case p_parent r of None \<Rightarrow> True | Some p \<Rightarrow> p < p_id r \<and> p \<in> set (map p_id tbl))"

definition parents_earlier :: "process_row list \<Rightarrow> bool" where
  "parents_earlier tbl = list_all (parent_earlier tbl) tbl"

definition parent_graph :: "process_row list \<Rightarrow> (int \<times> int) set" where
  "parent_graph tbl = {(p_id r, p) | r p. r \<in> set tbl \<and> p_parent r = Some p}"

text \<open>
  What every table written by the supervisor satisfies, and what relates the live
  tracees to the table.
\<close>

definition table_ok :: "process_row list \<Rightarrow> bool" where
  "table_ok tbl = (distinct (map p_id tbl) \<and> parents_earlier tbl)"

definition session_ok :: "session \<Rightarrow> bool" where
  "session_ok s = (table_ok (proc_table s) \<and> set (live s) \<subseteq> set (map p_id (proc_table s)))"

subsection \<open>The store of a session and the launch interface\<close>

text \<open>
  Modelled from the spec: the store that a trace session leaves, and the launch
  interface. Neither is among the sources. The store has the schema of section 6 and
  the rows that the session recorded. The launch interface runs the session on a fresh
  store at the database path and returns the root process's final exit code, which is
  the exit code of the root row; a session whose root has not terminated does not
  complete.
\<close>

definition session_store ::
  "process_row list \<Rightarrow> stored_exec list \<Rightarrow> stored_open list \<Rightarrow> database" where
  "session_store ps xs os =
     \<lparr>db_schema = store_schema, processes = ps, executed_files = xs, opened_files = os\<rparr>"

definition root_exit :: "process_row list \<Rightarrow> int option" where
  "root_exit tbl = (case roots tbl of [] \<Rightarrow> None | r # rs \<Rightarrow> p_exit r)"

definition launch ::
  "int \<Rightarrow> event list \<Rightarrow> stored_exec list \<Rightarrow> stored_open list \<Rightarrow>
   string \<Rightarrow> string list \<Rightarrow> string \<Rightarrow> nat \<Rightarrow> world \<Rightarrow> (exn + int) \<times> world" where
  "launch ts evs xs os binary argv database v w =
     (let tbl = traced_run Fresh ts evs [];
          w1 = w\<lparr>files := (files w)(database \<mapsto> session_store tbl xs os)\<rparr>
      in case root_exit tbl of
           Some c \<Rightarrow> (Inr c, w1)
         | None \<Rightarrow> (Inl (Exception ''AbortedSession''), w1))"

section \<open>Concrete surroundings for the examples\<close>

text \<open>\<open>repr\<close> of a string free of quotes, backslashes and unprintable characters.\<close>

definition quoted :: "string \<Rightarrow> string" where
  "quoted s = CHR 0x27 # s @ [CHR 0x27]"

definition no_files :: world where
  "no_files = \<lparr>files = Map.empty, stdout = [], usage = []\<rparr>"

text \<open>The one program that the example runs execute, with its argument vector as stored.\<close>

definition true_exec :: "string \<Rightarrow> stored_exec" where
  "true_exec av =
     \<lparr>sx_id = 0, sx_name = Text ''/bin/true'', sx_timestamp = 2, sx_process = 0,
      sx_argv = Text av\<rparr>"


text \<open>
  A run of \<open>/bin/true\<close> that is killed by signal 9, and a run that exits with status 3
  after an exec with an empty argument vector.
\<close>

definition killed_tracer :: "string \<Rightarrow> string list \<Rightarrow> string \<Rightarrow> nat \<Rightarrow> world \<Rightarrow> (exn + int) \<times> world" where
  "killed_tracer = launch 1 [Terminated 0 3 (Signaled 9)] [true_exec (''true'' @ [NUL])] []"


text \<open>A tracer that cannot start the program.\<close>

definition failing_trace ::
  "string \<Rightarrow> string list \<Rightarrow> string \<Rightarrow> bool \<Rightarrow> nat \<Rightarrow> world \<Rightarrow> (exn + int) \<times> world" where
  "failing_trace binary argv d ap v w = (Inl (Exception ''LaunchError''), w)"

text \<open>A packer that says what it was asked to write.\<close>

definition example_packer :: "string \<Rightarrow> string \<Rightarrow> bool \<Rightarrow> world \<Rightarrow> (exn + unit) \<times> world" where
  "example_packer t d i w = (Inr (), print_line (''packing '' @ t) w)"

definition example_ext :: externals where
  "example_ext =
     \<lparr>execute = killed_tracer,
      tracer_trace = failing_trace,
      write_configuration = (\<lambda>d i ov w. (Inr (), w)),
      pack_pack = example_packer,
      Path = (\<lambda>p. p),
      tempfile = (\<lambda>w. ''/tmp/reprozip_1.sqlite3''),
      repr = quoted,
      PY3 = True\<rparr>"

definition example_args :: args where
  "example_args =
     \<lparr>selected_command = Testrun, verbosity = 1, dir = ''.reprozip'', identify_packages = True,
      arg0 = None, append_flag = False, cmdline = [''/bin/true''], target = ''experiment.rpz''\<rparr>"


definition pack_args :: args where
  "pack_args = example_args\<lparr>selected_command := Pack, target := ''results/Run1''\<rparr>"

section \<open>Properties\<close>

subsection \<open>Splitting and joining\<close>

lemma str_split_nonempty: "str_split c s \<noteq> []"
  by (induction s) (auto split: list.splits)

lemma str_split_append: "str_split c (a @ c # b) = str_split c a @ str_split c b"
  by (induction a) (auto split: list.splits simp: str_split_nonempty)

lemma str_split_free: "c \<notin> set a \<Longrightarrow> str_split c a = [a]"
  by (induction a) auto

lemma str_split_join:
  "xs \<noteq> [] \<Longrightarrow> \<forall>a\<in>set xs. c \<notin> set a \<Longrightarrow> str_split c (join [c] xs) = xs"
proof (induction xs rule: induct_list012)
  case 1
  then show ?case by simp
next
  case (2 x)
  then show ?case by (simp add: str_split_free)
next
  case (3 x y zs)
  then show ?case by (simp add: str_split_append str_split_free)
qed

lemma str_split_snoc: "str_split c (s @ [c]) = str_split c s @ [[]]"
  using str_split_append [of c s "[]"] by simp

lemma str_split_single_empty: "str_split c s = [[]] \<longleftrightarrow> s = []"
  by (cases s) (auto split: list.splits simp: str_split_nonempty)

lemma butlast_neq: "xs \<noteq> [] \<Longrightarrow> butlast xs \<noteq> xs"
  by (metis length_butlast diff_less length_greater_0_conv less_irrefl zero_less_one)

lemma butlast_empty_iff: "xs \<noteq> [] \<Longrightarrow> butlast xs = [] \<longleftrightarrow> xs = [last xs]"
  by (cases xs rule: rev_cases) auto

lemma split_argv_trailing:
  assumes "\<forall>a\<in>set xs. NUL \<notin> set a"
  shows "split_argv (serialize_argv True xs) = Inr (if xs = [] then [[]] else xs)"
  using assms
  by (cases "xs = []")
     (simp_all add: split_argv_def serialize_argv_def index_last_def str_split_snoc
        str_split_join str_split_nonempty)

lemma split_argv_plain:
  assumes "\<forall>a\<in>set xs. NUL \<notin> set a"
  shows "split_argv (serialize_argv False xs) =
           Inr (if xs = [] then [] else if last xs = [] then butlast xs else xs)"
  using assms
  by (cases "xs = []")
     (simp_all add: split_argv_def serialize_argv_def index_last_def str_split_join)

lemma split_argv_empty_iff: "split_argv s = Inr [] \<longleftrightarrow> s = []"
proof -
  have ne: "str_split NUL s \<noteq> []" by (rule str_split_nonempty)
  have "split_argv s = Inr [] \<longleftrightarrow> str_split NUL s = [[]]"
    using ne
    by (auto simp: split_argv_def index_last_def butlast_empty_iff Let_def split: if_splits)
  then show ?thesis by (simp add: str_split_single_empty)
qed

lemma split_argv_total: "\<exists>argv. split_argv s = Inr argv"
  by (simp add: split_argv_def index_last_def str_split_nonempty Let_def)

text \<open>
  C2, as amended. For arguments free of NUL, splitting what \<open>print_db\<close> reads gives back
  the arguments that were joined: with the trailing separator for every sequence that is
  not empty (an empty last argument included); without it exactly when the sequence is
  empty or its last argument is not the empty string. So the round trip is independent of
  the trailing separator for the sequences that are not empty and do not end in an empty
  argument.
\<close>

theorem argv_roundtrip:
  assumes "\<forall>a\<in>set xs. NUL \<notin> set a"
  shows "(split_argv (serialize_argv True xs) = Inr xs \<longleftrightarrow> xs \<noteq> []) \<and>
         (split_argv (serialize_argv False xs) = Inr xs \<longleftrightarrow> xs = [] \<or> last xs \<noteq> [])"
  using assms by (auto simp: split_argv_trailing split_argv_plain butlast_neq)

theorem argv_roundtrip_witness:
  "NUL \<notin> set ''echo'' \<and> NUL \<notin> set ''hi'' \<and>
   split_argv (serialize_argv True [''echo'', ''hi'']) = Inr [''echo'', ''hi''] \<and>
   split_argv (serialize_argv False [''echo'', ''hi'']) = Inr [''echo'', ''hi'']"
  using argv_roundtrip [of "[''echo'', ''hi'']"] by (simp add: NUL_def)

text \<open>
  C2 as stated fails: joined without a trailing separator, the arguments \<open>echo\<close> and the
  empty string come back as \<open>echo\<close> alone.
\<close>

theorem argv_roundtrip_counterexample:
  "NUL \<notin> set ''echo'' \<and> NUL \<notin> set [] \<and>
   split_argv (serialize_argv False [''echo'', []]) = Inr [''echo'']"
  by (simp add: split_argv_def serialize_argv_def index_last_def NUL_def)

subsection \<open>The rows of \<open>executed_files\<close>\<close>

text \<open>
  C10, as amended. Splitting on NUL and dropping the final empty segment yields the empty
  sequence for the empty \<open>argv\<close> field only; the access to element 0 then raises
  \<open>IndexError\<close>, and the row of every other \<open>argv\<close> field is printed.
\<close>

theorem format_exec_fails_iff:
  "(split_argv (x_argv r) = Inr [] \<longleftrightarrow> x_argv r = []) \<and>
   (format_exec rp r = Inl IndexError \<longleftrightarrow> x_argv r = []) \<and>
   ((\<exists>line. format_exec rp r = Inr line) \<longleftrightarrow> x_argv r \<noteq> [])"
proof -
  obtain argv where a: "split_argv (x_argv r) = Inr argv"
    using split_argv_total by blast
  have e: "argv = [] \<longleftrightarrow> x_argv r = []"
    using a split_argv_empty_iff [of "x_argv r"] by auto
  have "format_exec rp r = Inl IndexError \<longleftrightarrow> argv = []"
    using a by (cases argv) (simp_all add: format_exec_def index0_def Let_def)
  moreover have "(\<exists>line. format_exec rp r = Inr line) \<longleftrightarrow> argv \<noteq> []"
    using a by (cases argv) (simp_all add: format_exec_def index0_def Let_def)
  ultimately show ?thesis using e split_argv_empty_iff by simp
qed

theorem format_exec_fails_iff_witness:
  "format_exec quoted \<lparr>x_id = 0, x_name = ''/bin/true'', x_timestamp = 2, x_process = 0,
      x_argv = []\<rparr> = Inl IndexError"
  using format_exec_fails_iff [of "\<lparr>x_id = 0, x_name = ''/bin/true'', x_timestamp = 2,
      x_process = 0, x_argv = []\<rparr>" quoted]
  by simp

text \<open>
  C10 as stated fails for the field that is a single NUL: the split yields two empty
  segments, one is left after the drop, element 0 exists and the row is printed.
\<close>

theorem single_nul_counterexample:
  "split_argv [NUL] = Inr [[]] \<and>
   format_exec quoted \<lparr>x_id = 0, x_name = ''/bin/true'', x_timestamp = 2, x_process = 0,
      x_argv = [NUL]\<rparr> =
     Inr (''|      0 |                2 |       0 | (/bin/true) '' @ quoted [] @
          replicate 23 CHR '' '' @ '' |'')"
  by code_simp

subsection \<open>Program path and argument vector\<close>




subsection \<open>The temporary database of \<open>testrun\<close>\<close>

text \<open>
  C8. Whatever the tracer, the dump and the warning do, and whether they return or
  raise, the file that \<open>testrun\<close> created is gone when \<open>testrun\<close> is left.
\<close>

theorem testrun_removes_database:
  "files (snd (testrun ext a w)) (tempfile ext w) = None"
  by (auto simp: testrun_def remove_file_def Let_def split: prod.splits sum.splits option.splits)

theorem testrun_removes_database_witness:
  "files (snd (testrun example_ext example_args no_files)) ''/tmp/reprozip_1.sqlite3'' = None"
  using testrun_removes_database [of example_ext example_args no_files]
  by (simp add: example_ext_def)

subsection \<open>The target of \<open>pack\<close>\<close>

lemma pack_target_suffixed:
  "endswith (lower (unicodename (P t))) ''.rpz'' \<Longrightarrow> pack_target py3 P t = Inr (P t)"
  by (simp add: pack_target_def)

lemma pack_target_python3:
  "\<not> endswith (lower (unicodename (P t))) ''.rpz'' \<Longrightarrow> pack_target True P t = Inl TypeError"
  by (simp add: pack_target_def bytes_plus_unicode_def)

lemma pack_target_python2:
  "\<not> endswith (lower (unicodename (P t))) ''.rpz'' \<Longrightarrow>
   list_all (\<lambda>c. (of_char c :: nat) < 128) (P t) \<Longrightarrow>
   pack_target False P t = Inr (P (P t @ ''.rpz''))"
  by (simp add: pack_target_def bytes_plus_unicode_def)

lemma run1_target: "\<not> endswith (lower (unicodename ''results/Run1'')) ''.rpz''"
  by code_simp

lemma run1_ascii: "list_all (\<lambda>c. (of_char c :: nat) < 128) ''results/Run1''"
  by code_simp

text \<open>
  C9 at the target \<open>results/Run1\<close>. The name does not end in \<open>.rpz\<close>, so \<open>pack\<close> goes on
  to append the suffix. On Python 3 the addition of line 192 raises \<open>TypeError\<close>: the
  packer is not called, nothing is appended, and \<open>main\<close> leaves with status 0. On
  Python 2 the same call hands the packer \<open>results/Run1.rpz\<close>.
\<close>

theorem pack_raises_on_python3:
  "pack example_ext pack_args no_files = (Inl TypeError, no_files) \<and>
   main example_ext pack_args no_files =
     (SysExit 0, no_files\<lparr>usage := [(''command'', ''pack''), (''result'', ''TypeError'')]\<rparr>) \<and>
   pack (example_ext\<lparr>PY3 := False\<rparr>) pack_args no_files =
     (Inr (), no_files\<lparr>stdout := [''packing results/Run1.rpz'']\<rparr>)"
proof -
  have t3: "pack_target True (\<lambda>p. p) ''results/Run1'' = Inl TypeError"
    using run1_target by (rule pack_target_python3)
  have t2: "pack_target False (\<lambda>p. p) ''results/Run1'' = Inr ''results/Run1.rpz''"
    using pack_target_python2 [of "\<lambda>p. p" "''results/Run1''"] run1_target run1_ascii by simp
  have p3: "pack example_ext pack_args no_files = (Inl TypeError, no_files)"
    using t3 by (simp add: pack_def example_ext_def pack_args_def example_args_def)
  have m: "main example_ext pack_args no_files =
     (SysExit 0, no_files\<lparr>usage := [(''command'', ''pack''), (''result'', ''TypeError'')]\<rparr>)"
    using t3
    by (simp add: main_def has_cmdline_def pack_def example_ext_def pack_args_def example_args_def
        record_usage_report_def submit_usage_report_def no_files_def)
  have p2: "pack (example_ext\<lparr>PY3 := False\<rparr>) pack_args no_files =
     (Inr (), no_files\<lparr>stdout := [''packing results/Run1.rpz'']\<rparr>)"
    using t2
    by (simp add: pack_def example_ext_def pack_args_def example_args_def example_packer_def
        print_line_def no_files_def)
  show ?thesis using p3 m p2 by simp
qed

subsection \<open>Exit codes\<close>

lemma low_byte: "0 \<le> n \<Longrightarrow> n \<le> 255 \<Longrightarrow> (n::int) AND 0xFF = n"
proof -
  assume a: "0 \<le> n" "n \<le> 255"
  have "n AND mask 8 = take_bit 8 n" by (simp add: take_bit_eq_mask)
  also have "\<dots> = n" using a by (simp add: take_bit_int_eq_self)
  finally show ?thesis by (simp add: mask_eq_exp_minus_1)
qed

lemma bit8_clear: "0 \<le> n \<Longrightarrow> n \<le> 255 \<Longrightarrow> (n::int) AND 0x0100 = 0"
proof -
  assume a: "0 \<le> n" "n \<le> 255"
  have "n = take_bit 8 n" using a by (simp add: take_bit_int_eq_self)
  then have "\<not> bit n 8" by (metis bit_take_bit_iff less_irrefl)
  moreover have "n AND 2 ^ 8 = 0 \<longleftrightarrow> \<not> bit n 8"
    by (rule and_exp_eq_0_iff_not_bit)
  ultimately show ?thesis by simp
qed

lemma bit8_set: "((0x0100 OR n) AND 0x0100 :: int) \<noteq> 0"
proof -
  have "bit ((2 ^ 8 OR n) :: int) 8" by (simp add: bit_or_iff bit_exp_iff)
  moreover have "(2 ^ 8 OR n) AND (2 ^ 8 :: int) = 0 \<longleftrightarrow> \<not> bit ((2 ^ 8 OR n) :: int) 8"
    by (rule and_exp_eq_0_iff_not_bit)
  ultimately show ?thesis by simp
qed

lemma low_byte_or: "0 \<le> n \<Longrightarrow> n \<le> 255 \<Longrightarrow> ((0x0100 OR n) AND 0xFF :: int) = n"
proof -
  assume a: "0 \<le> n" "n \<le> 255"
  have "(0x0100 OR n) AND 0xFF = (0x0100 AND 0xFF) OR (n AND (0xFF::int))"
    by (simp add: bit.conj_disj_distrib2)
  also have "\<dots> = n" using a by (simp add: low_byte)
  finally show ?thesis .
qed

text \<open>
  The encoding of the specification and the reading of \<open>testrun\<close> agree: every status
  and every signal number in 0..255 comes back.
\<close>

lemma decode_encode:
  assumes "0 \<le> n" "n \<le> 255"
  shows "decode_exit (encode_exit (Exited n)) = Exited n"
    and "decode_exit (encode_exit (Signaled n)) = Signaled n"
  using assms bit8_set [of n] by (simp_all add: decode_exit_def bit8_clear low_byte_or)

text \<open>
  C1 at the exit code of a process killed by signal 9. The code stored is \<open>0x0109\<close>;
  the exit column of \<open>print_db\<close> shows the stored code, 265, after \<open>sig\<close>, where the
  warning of \<open>testrun\<close> shows the signal number 9.
\<close>

theorem print_db_shows_raw_signal_code:
  "encode_exit (Signaled 9) = 0x0109 \<and>
   format_exit (Some 0x0109) = Inr '' sig265 '' \<and>
   stdout (report_exit 0x0109 no_files) =
     [CHR 0x0A # ''Warning: program appears to have been terminated by signal 9'']"
  by code_simp

subsection \<open>What \<open>testrun\<close> reports\<close>











subsection \<open>Errors of a subcommand\<close>

lemma main_swallows_exception:
  assumes "\<not> (has_cmdline (selected_command a) \<and> cmdline a = [])"
    and "func (selected_command a) ext a
           (record_usage_report (command_name (selected_command a)) w) = (Inl (Exception n), w1)"
  shows "main ext a w = (SysExit 0, submit_usage_report n w1)"
  using assms by (simp add: main_def)

text \<open>
  C3 at a trace whose tracer raises \<open>LaunchError\<close>: \<open>main\<close> records the name of the
  exception in the usage report and leaves with status 0, the status of a run that
  succeeded.
\<close>

theorem main_exits_zero_on_error:
  "main example_ext (example_args\<lparr>selected_command := Trace\<rparr>) no_files =
     (SysExit 0, no_files\<lparr>usage := [(''command'', ''trace''), (''result'', ''LaunchError'')]\<rparr>)"
  by (simp add: main_def has_cmdline_def example_args_def example_ext_def trace_def index0_def
      failing_trace_def record_usage_report_def submit_usage_report_def no_files_def)

subsection \<open>The schema that \<open>print_db\<close> selects\<close>













subsection \<open>The parent graph of the processes table\<close>

lemma fold_max_ge: "a \<le> fold (\<lambda>r m. max m (p_id r + 1)) tbl (a::int)"
proof (induction tbl arbitrary: a)
  case Nil
  then show ?case by simp
next
  case (Cons r tbl)
  have "a \<le> max a (p_id r + 1)" by simp
  also have "\<dots> \<le> fold (\<lambda>r m. max m (p_id r + 1)) tbl (max a (p_id r + 1))"
    by (rule Cons.IH)
  finally show ?case by simp
qed

lemma fold_max_gt:
  "r \<in> set tbl \<Longrightarrow> p_id r < fold (\<lambda>r m. max m (p_id r + 1)) tbl (a::int)"
proof (induction tbl arbitrary: a)
  case Nil
  then show ?case by simp
next
  case (Cons x tbl)
  show ?case
  proof (cases "r = x")
    case True
    have "p_id x < max a (p_id x + 1)" by simp
    also have "\<dots> \<le> fold (\<lambda>r m. max m (p_id r + 1)) tbl (max a (p_id x + 1))"
      by (rule fold_max_ge)
    finally show ?thesis using True by simp
  next
    case False
    then have "r \<in> set tbl" using Cons.prems by simp
    then show ?thesis using Cons.IH by simp
  qed
qed

lemma next_id_gt: "r \<in> set tbl \<Longrightarrow> p_id r < next_id tbl"
  unfolding next_id_def by (rule fold_max_gt)

lemma next_id_fresh: "next_id tbl \<notin> set (map p_id tbl)"
  using next_id_gt by fastforce

lemma parent_earlier_mono:
  "set (map p_id tbl) \<subseteq> set (map p_id tbl') \<Longrightarrow> parent_earlier tbl r \<Longrightarrow> parent_earlier tbl' r"
  by (auto simp: parent_earlier_def split: option.splits)

lemma table_ok_record:
  assumes "table_ok tbl" and "parent = None \<or> (\<exists>p. parent = Some p \<and> p \<in> set (map p_id tbl))"
  shows "table_ok (snd (record_process parent ts tbl))"
proof -
  let ?new = "\<lparr>p_id = next_id tbl, p_parent = parent, p_timestamp = ts, p_exit = None\<rparr>"
  have d: "distinct (map p_id (tbl @ [?new]))"
    using assms(1) next_id_fresh [of tbl] by (simp add: table_ok_def)
  have old: "\<forall>r\<in>set tbl. parent_earlier (tbl @ [?new]) r"
    using assms(1) parent_earlier_mono [of tbl "tbl @ [?new]"]
    by (auto simp: table_ok_def parents_earlier_def list_all_iff)
  have new: "parent_earlier (tbl @ [?new]) ?new"
    using assms(2) next_id_gt [of _ tbl]
    by (auto simp: parent_earlier_def)
  show ?thesis
    using d old new
    by (simp add: record_process_def Let_def table_ok_def parents_earlier_def list_all_iff)
qed

lemma ids_update_exit: "map p_id (update_exit p c tbl) = map p_id tbl"
  by (induction tbl) (simp_all add: update_exit_def)

lemma id_set_update_exit: "p_id ` set (update_exit p c tbl) = p_id ` set tbl"
  using ids_update_exit [of p c tbl] by (metis set_map)

lemma parents_update_exit: "map p_parent (update_exit p c tbl) = map p_parent tbl"
  by (induction tbl) (simp_all add: update_exit_def)

lemma table_ok_update_exit:
  assumes "table_ok tbl"
  shows "table_ok (update_exit p c tbl)"
proof -
  have "\<forall>r\<in>set (update_exit p c tbl). parent_earlier (update_exit p c tbl) r"
  proof
    fix r assume "r \<in> set (update_exit p c tbl)"
    then obtain r0 where r0: "r0 \<in> set tbl" "p_id r = p_id r0" "p_parent r = p_parent r0"
      by (auto simp: update_exit_def)
    then have "parent_earlier tbl r0"
      using assms by (simp add: table_ok_def parents_earlier_def list_all_iff)
    then show "parent_earlier (update_exit p c tbl) r"
      using r0 by (simp add: parent_earlier_def id_set_update_exit split: option.splits)
  qed
  then show ?thesis
    using assms by (simp add: table_ok_def parents_earlier_def list_all_iff ids_update_exit)
qed

lemma session_ok_start:
  assumes "table_ok existing"
  shows "session_ok (start m existing ts)"
proof -
  have "table_ok (store_open m existing)"
    using assms by (cases m) (simp_all add: store_open_def table_ok_def parents_earlier_def)
  then have "table_ok (snd (record_process None ts (store_open m existing)))"
    by (rule table_ok_record) simp
  then show ?thesis
    by (simp add: start_def session_ok_def record_process_def Let_def)
qed

lemma session_ok_event:
  assumes "session_ok s"
  shows "session_ok (on_event s e)"
proof (cases e)
  case (Forked p ts)
  show ?thesis
  proof (cases "p \<in> set (live s)")
    case True
    then have "p \<in> set (map p_id (proc_table s))"
      using assms by (auto simp: session_ok_def)
    then have "table_ok (snd (record_process (Some p) ts (proc_table s)))"
      using assms by (intro table_ok_record) (simp_all add: session_ok_def)
    then show ?thesis
      using assms True Forked
      by (auto simp: session_ok_def record_process_def Let_def)
  next
    case False
    then show ?thesis using assms Forked by simp
  qed
next
  case (Terminated p ts st)
  then show ?thesis
    using assms by (auto simp: session_ok_def table_ok_update_exit id_set_update_exit)
next
  case (Other p ts)
  then show ?thesis using assms by simp
qed

lemma session_ok_run: "session_ok s \<Longrightarrow> session_ok (run_to_completion s evs)"
  unfolding run_to_completion_def
  by (induction evs arbitrary: s) (simp_all add: session_ok_event)

lemma table_ok_traced_run: "table_ok existing \<Longrightarrow> table_ok (traced_run m ts evs existing)"
  using session_ok_run [OF session_ok_start]
  by (simp add: traced_run_def session_ok_def)

lemma table_ok_store_after: "table_ok (store_after runs)"
proof (induction runs rule: rev_induct)
  case Nil
  then show ?case by (simp add: store_after_def table_ok_def parents_earlier_def)
next
  case (snoc r runs)
  obtain m ts evs where r: "r = (m, ts, evs)" by (cases r) auto
  show ?case
    using snoc table_ok_traced_run [of "store_after runs" m ts evs]
    by (simp add: store_after_def r)
qed

lemma roots_update_exit: "length (roots (update_exit p c tbl)) = length (roots tbl)"
  by (induction tbl) (simp_all add: roots_def update_exit_def)

lemma roots_record:
  "length (roots (snd (record_process parent ts tbl))) =
     length (roots tbl) + (if parent = None then 1 else 0)"
  by (simp add: record_process_def Let_def roots_def)

lemma roots_event: "length (roots (proc_table (on_event s e))) = length (roots (proc_table s))"
proof (cases e)
  case (Forked p ts)
  then show ?thesis
    using roots_record [of "Some p" ts "proc_table s"]
    by (simp add: split_beta)
next
  case (Terminated p ts st)
  then show ?thesis by (simp add: roots_update_exit)
next
  case (Other p ts)
  then show ?thesis by simp
qed

lemma roots_run:
  "length (roots (proc_table (run_to_completion s evs))) = length (roots (proc_table s))"
  unfolding run_to_completion_def
  by (induction evs arbitrary: s) (simp_all add: roots_event)

lemma roots_traced_run:
  "length (roots (traced_run m ts evs existing)) =
     (case m of Fresh \<Rightarrow> 1 | Append \<Rightarrow> length (roots existing) + 1)"
proof -
  have "length (roots (traced_run m ts evs existing)) =
          length (roots (snd (record_process None ts (store_open m existing))))"
    by (simp add: traced_run_def roots_run start_def split_beta)
  also have "\<dots> = length (roots (store_open m existing)) + 1"
    by (simp add: roots_record)
  finally show ?thesis
    by (cases m) (simp_all add: store_open_def roots_def)
qed

lemma acyclic_parent_graph:
  assumes "parents_earlier tbl"
  shows "acyclic (parent_graph tbl)"
proof -
  have sub: "parent_graph tbl \<subseteq> {(a, b). b < a}"
    using assms
    by (auto simp: parent_graph_def parents_earlier_def list_all_iff parent_earlier_def)
  have "trans {(a::int, b). b < a}" by (auto simp: trans_def)
  then have "{(a::int, b). b < a}\<^sup>+ = {(a, b). b < a}" by (rule trancl_id)
  then have "acyclic {(a::int, b). b < a}" by (simp add: acyclic_def)
  then show ?thesis using sub by (rule acyclic_subset)
qed

text \<open>
  C6, as amended. After every traced run, on a store opened fresh or for appending, the
  ids of the processes table are distinct, every parent that is not null references a row
  of the table with a strictly smaller id, and the parent graph is acyclic. The parent is
  null for exactly one row of each run: for exactly one row of the table when the store
  was opened fresh, and for one row more than the table held before when the run was
  appended.
\<close>

theorem parent_forest:
  "distinct (map p_id (traced_run m ts evs (store_after runs))) \<and>
   parents_earlier (traced_run m ts evs (store_after runs)) \<and>
   acyclic (parent_graph (traced_run m ts evs (store_after runs))) \<and>
   length (roots (traced_run m ts evs (store_after runs))) =
     (case m of Fresh \<Rightarrow> 1 | Append \<Rightarrow> length (roots (store_after runs)) + 1)"
proof -
  have "table_ok (traced_run m ts evs (store_after runs))"
    using table_ok_store_after by (rule table_ok_traced_run)
  then show ?thesis
    using acyclic_parent_graph [of "traced_run m ts evs (store_after runs)"]
      roots_traced_run [of m ts evs "store_after runs"]
    by (simp add: table_ok_def)
qed

theorem parent_forest_witness:
  "distinct (map p_id (traced_run Fresh 10
      [Forked 0 11, Forked 0 12, Terminated 1 13 (Exited 0), Terminated 2 14 (Exited 1)]
      (store_after []))) \<and>
   parents_earlier (traced_run Fresh 10
      [Forked 0 11, Forked 0 12, Terminated 1 13 (Exited 0), Terminated 2 14 (Exited 1)]
      (store_after [])) \<and>
   acyclic (parent_graph (traced_run Fresh 10
      [Forked 0 11, Forked 0 12, Terminated 1 13 (Exited 0), Terminated 2 14 (Exited 1)]
      (store_after []))) \<and>
   length (roots (traced_run Fresh 10
      [Forked 0 11, Forked 0 12, Terminated 1 13 (Exited 0), Terminated 2 14 (Exited 1)]
      (store_after []))) = 1"
  using parent_forest [of Fresh 10
      "[Forked 0 11, Forked 0 12, Terminated 1 13 (Exited 0), Terminated 2 14 (Exited 1)]" "[]"]
  by simp

text \<open>
  C6 as stated fails for a run that is appended: after a first run and a second one
  appended to it, the table holds two rows with a null parent.
\<close>

theorem appended_run_counterexample:
  "map p_parent
     (traced_run Append 20 [Forked 1 21]
        (store_after [(Fresh, 10, [Terminated 0 11 (Exited 0)])])) = [None, None, Some 1]"
  by code_simp

end
